theory Spec2Isabelle
  imports Main
begin

section \<open>Python values, exceptions and strings\<close>

text \<open>
  The adapter \<^verbatim>\<open>QmlLanguageServer\<close> (qml_language_server.py) handles values of
  Python's type \<^verbatim>\<open>Any\<close>: the language-server specific settings and the payload of
  the initialize response. They are modelled by \<open>pyval\<close>. A dictionary is an
  association list in insertion order with string keys; floats do not occur in the
  adapter and are left out. A \<open>string\<close> is a Python \<^verbatim>\<open>str\<close> whose code points are
  below 256, one \<open>char\<close> per code point.
\<close>

datatype pyval =
    PNone
  | PBool bool
  | PInt int
  | PStr string
  | PList "pyval list"
  | PDict "(string \<times> pyval) list"

text \<open>
  The error taxonomy of the core client (spec, section 7). The classes by which the core
  reports these errors are not part of the adapter.
\<close>

datatype error_kind = StartupError | ProtocolError | RemoteError | HandshakeError | ServerDied

text \<open>
  The exception classes the adapter raises or lets through; \<open>CoreError\<close> is an error
  raised by a call into the core client.
\<close>

datatype py_exception =
    FileNotFoundError
  | PermissionError
  | UnicodeDecodeError
  | RuntimeError string
  | TypeError
  | KeyError string
  | ValueError
  | AssertionError
  | CoreError error_kind

text \<open>Truth value testing, as \<^verbatim>\<open>if x:\<close> does it.\<close>

fun truthy :: "pyval \<Rightarrow> bool" where
  "truthy PNone = False"
| "truthy (PBool b) = b"
| "truthy (PInt i) = (i \<noteq> 0)"
| "truthy (PStr s) = (s \<noteq> [])"
| "truthy (PList xs) = (xs \<noteq> [])"
| "truthy (PDict kvs) = (kvs \<noteq> [])"

text \<open>\<^verbatim>\<open>d.get(k)\<close> on a settings dictionary: \<^verbatim>\<open>None\<close> for an absent key.\<close>

definition dict_get :: "(string \<rightharpoonup> pyval) \<Rightarrow> string \<Rightarrow> pyval" where
  "dict_get d k = (case d k of None \<Rightarrow> PNone | Some v \<Rightarrow> v)"

text \<open>\<^verbatim>\<open>x[k]\<close> with a string key: only a dictionary can be subscripted by one.\<close>

fun subscript :: "pyval \<Rightarrow> string \<Rightarrow> py_exception + pyval" where
  "subscript (PDict kvs) k =
     (case map_of kvs k of None \<Rightarrow> Inl (KeyError k) | Some v \<Rightarrow> Inr v)"
| "subscript v k = Inl TypeError"

text \<open>
  \<^verbatim>\<open>sub in s\<close> on strings: \<open>sub\<close> occurs in \<open>s\<close> as a contiguous block.
\<close>

fun substring :: "string \<Rightarrow> string \<Rightarrow> bool" where
  "substring sub [] = (sub = [])"
| "substring sub (c # cs) = (take (length sub) (c # cs) = sub \<or> substring sub cs)"

text \<open>
  \<^verbatim>\<open>k in x\<close> for a string \<open>k\<close>: key membership in a dictionary, element membership in a
  list, substring test in a string, \<^verbatim>\<open>TypeError\<close> for a value that is not a container.
\<close>

fun contains :: "string \<Rightarrow> pyval \<Rightarrow> py_exception + bool" where
  "contains k (PDict kvs) = Inr (k \<in> set (map fst kvs))"
| "contains k (PList xs) = Inr (PStr k \<in> set xs)"
| "contains k (PStr s) = Inr (substring k s)"
| "contains k v = Inl TypeError"

text \<open>
  \<^verbatim>\<open>str.isspace\<close> on one code point below 256: tab to carriage return, the four
  separators 28 to 31, space, next line (133) and no-break space (160).
\<close>

definition py_isspace :: "char \<Rightarrow> bool" where
  "py_isspace c =
     (let n = (of_char c :: nat)
      in (9 \<le> n \<and> n \<le> 13) \<or> (28 \<le> n \<and> n \<le> 32) \<or> n = 133 \<or> n = 160)"

text \<open>\<^verbatim>\<open>s.strip()\<close>: whitespace removed at both ends.\<close>

definition strip :: "string \<Rightarrow> string" where
  "strip s = rev (dropWhile py_isspace (rev (dropWhile py_isspace s)))"

section \<open>The qmlls probe\<close>

text \<open>
  What \<^verbatim>\<open>subprocess.run(["qmlls", "--help"], capture_output=True, text=True, check=False)\<close>
  does is decided by the machine the adapter runs on: it raises (\<^verbatim>\<open>FileNotFoundError\<close>
  when no qmlls is on the search path) or it returns a completed process with its
  return code and its captured standard output.
\<close>

datatype run_result =
    Raises py_exception
  | CompletedProcess (returncode: int) (stdout: string)

text \<open>
  \<^verbatim>\<open>QmlLanguageServer._get_qmlls_version\<close>. Only \<^verbatim>\<open>FileNotFoundError\<close> is caught; the
  value of \<^verbatim>\<open>result.stdout.strip() or "qmlls available"\<close> is the stripped output when
  that is not empty.
\<close>

fun get_qmlls_version :: "run_result \<Rightarrow> py_exception + string option" where
  "get_qmlls_version (Raises e) = (if e = FileNotFoundError then Inr None else Inl e)"
| "get_qmlls_version (CompletedProcess rc out) =
     (if rc = 0
      then Inr (Some (if strip out \<noteq> [] then strip out else ''qmlls available''))
      else Inr None)"

text \<open>The message of the \<^verbatim>\<open>RuntimeError\<close> of the dependency check, lines joined by line feeds.\<close>

definition qmlls_missing_message :: string where
  "qmlls_missing_message =
     ''qmlls is not installed or not on PATH.'' @ [CHR 0x0A] @
     ''qmlls is part of the Qt framework. Please install Qt 6.x and ensure qmlls is on your PATH.'' @ [CHR 0x0A] @
     ''It is typically found at <Qt install dir>/<version>/<platform>/bin/qmlls.''"

text \<open>
  \<^verbatim>\<open>QmlLanguageServer._setup_runtime_dependency\<close>: \<^verbatim>\<open>not qmlls_version\<close> holds for
  \<^verbatim>\<open>None\<close> and for the empty string.
\<close>

definition setup_runtime_dependency :: "run_result \<Rightarrow> py_exception + bool" where
  "setup_runtime_dependency run =
     (case get_qmlls_version run of
        Inl e \<Rightarrow> Inl e
      | Inr None \<Rightarrow> Inl (RuntimeError qmlls_missing_message)
      | Inr (Some v) \<Rightarrow>
          (if v = [] then Inl (RuntimeError qmlls_missing_message) else Inr True))"

section \<open>Ignored directories\<close>

text \<open>
  \<^verbatim>\<open>QmlLanguageServer.is_ignored_dirname\<close>. The superclass method
  \<^verbatim>\<open>SolidLanguageServer.is_ignored_dirname\<close> is not part of the adapter; it is the
  parameter \<open>super_is_ignored_dirname\<close>.
\<close>

definition is_ignored_dirname :: "(string \<Rightarrow> bool) \<Rightarrow> string \<Rightarrow> bool" where
  "is_ignored_dirname super_is_ignored_dirname dirname =
     (super_is_ignored_dirname dirname \<or> dirname \<in> set [''build'', ''node_modules''])"

section \<open>Paths\<close>

text \<open>
  \<^verbatim>\<open>os.path\<close> and \<^verbatim>\<open>pathlib\<close> are modelled as they are on POSIX (\<^verbatim>\<open>posixpath\<close>,
  \<^verbatim>\<open>PurePosixPath\<close>), with UTF-8 as the file system encoding.
\<close>

text \<open>\<^verbatim>\<open>os.path.isabs(s)\<close>: \<^verbatim>\<open>s.startswith('/')\<close>.\<close>

definition isabs :: "string \<Rightarrow> bool" where
  "isabs s = (case s of [] \<Rightarrow> False | c # _ \<Rightarrow> c = CHR ''/'')"

text \<open>
  \<^verbatim>\<open>os.path.join(a, b)\<close>: an absolute \<open>b\<close> replaces \<open>a\<close>; otherwise \<open>b\<close> is appended, after a
  separator unless \<open>a\<close> is empty or ends with one.
\<close>

definition join :: "string \<Rightarrow> string \<Rightarrow> string" where
  "join a b =
     (if isabs b then b
      else if a = [] \<or> last a = CHR ''/'' then a @ b
      else a @ ''/'' @ b)"

text \<open>\<^verbatim>\<open>os.path.basename(p)\<close>: what follows the last separator.\<close>

definition basename :: "string \<Rightarrow> string" where
  "basename p = rev (takeWhile (\<lambda>c. c \<noteq> CHR ''/'') (rev p))"

text \<open>\<^verbatim>\<open>s.split('/')\<close>.\<close>

fun split_sep :: "string \<Rightarrow> string list" where
  "split_sep [] = [[]]"
| "split_sep (c # cs) =
     (if c = CHR ''/'' then [] # split_sep cs
      else (case split_sep cs of [] \<Rightarrow> [[c]] | w # ws \<Rightarrow> (c # w) # ws))"

text \<open>\<^verbatim>\<open>'/'.join(parts)\<close>.\<close>

fun join_sep :: "string list \<Rightarrow> string" where
  "join_sep [] = []"
| "join_sep [w] = w"
| "join_sep (w # ws) = w @ ''/'' @ join_sep ws"

text \<open>
  The root \<^verbatim>\<open>pathlib\<close> gives a POSIX path: exactly two leading separators are kept,
  any other positive number of them is one.
\<close>

definition path_root :: "string \<Rightarrow> string" where
  "path_root s =
     (let n = length (takeWhile (\<lambda>c. c = CHR ''/'') s)
      in if n = 0 then [] else if n = 2 then ''//'' else ''/'')"

text \<open>The components of the path: empty and \<^verbatim>\<open>.\<close> components are dropped.\<close>

definition path_parts :: "string \<Rightarrow> string list" where
  "path_parts s =
     filter (\<lambda>x. x \<noteq> [] \<and> x \<noteq> ''.'')
       (split_sep (dropWhile (\<lambda>c. c = CHR ''/'') s))"

text \<open>\<^verbatim>\<open>str(pathlib.Path(s))\<close>.\<close>

definition path_str :: "string \<Rightarrow> string" where
  "path_str s =
     (let r = path_root s @ join_sep (path_parts s) in if r = [] then ''.'' else r)"

text \<open>\<^verbatim>\<open>os.fsencode\<close>: the UTF-8 bytes of a string of code points below 256.\<close>

definition fsencode :: "string \<Rightarrow> nat list" where
  "fsencode s =
     concat (map (\<lambda>c. let n = (of_char c :: nat)
                       in if n < 128 then [n] else [192 + n div 64, 128 + n mod 64]) s)"

definition hexdigit :: "nat \<Rightarrow> char" where
  "hexdigit n = ''0123456789ABCDEF'' ! (n mod 16)"

text \<open>
  \<^verbatim>\<open>urllib.parse.quote_from_bytes(bs)\<close> with the default \<^verbatim>\<open>safe='/'\<close>: letters, digits and
  \<^verbatim>\<open>_ . - ~ /\<close> stay, every other byte becomes \<^verbatim>\<open>%XX\<close>.
\<close>

definition always_safe :: "nat \<Rightarrow> bool" where
  "always_safe b =
     ((65 \<le> b \<and> b \<le> 90) \<or> (97 \<le> b \<and> b \<le> 122) \<or> (48 \<le> b \<and> b \<le> 57) \<or>
      b = 95 \<or> b = 46 \<or> b = 45 \<or> b = 126 \<or> b = 47)"

definition quote_from_bytes :: "nat list \<Rightarrow> string" where
  "quote_from_bytes bs =
     concat (map (\<lambda>b. if always_safe b then [char_of b]
                       else [CHR ''%'', hexdigit (b div 16), hexdigit b]) bs)"

text \<open>
  \<^verbatim>\<open>pathlib.Path(s).as_uri()\<close>: a relative path raises \<^verbatim>\<open>ValueError\<close>; a path is absolute
  when it has a root.
\<close>

definition as_uri :: "string \<Rightarrow> py_exception + string" where
  "as_uri s =
     (if path_root s = [] then Inl ValueError
      else Inr (''file://'' @ quote_from_bytes (fsencode (path_str s))))"

section \<open>The constructor\<close>

text \<open>
  Sequencing of steps that may raise: the first exception ends the computation.
\<close>

definition and_then :: "py_exception + 'a \<Rightarrow> ('a \<Rightarrow> py_exception + 'b) \<Rightarrow> py_exception + 'b" where
  "and_then r f = (case r of Inl e \<Rightarrow> Inl e | Inr x \<Rightarrow> f x)"

text \<open>
  The three lines that the constructor repeats for \<^verbatim>\<open>build_dir\<close>, for each import path and
  for \<^verbatim>\<open>doc_dir\<close>:
  \<^verbatim>\<open>if not os.path.isabs(p): p = os.path.join(repository_root_path, p)\<close>.
  \<^verbatim>\<open>os.path.isabs\<close> raises \<^verbatim>\<open>TypeError\<close> on a value that is not a string.
\<close>

fun absolute_in :: "string \<Rightarrow> pyval \<Rightarrow> py_exception + string" where
  "absolute_in repository_root_path (PStr p) =
     Inr (if \<not> isabs p then join repository_root_path p else p)"
| "absolute_in repository_root_path v = Inl TypeError"

text \<open>
  \<^verbatim>\<open>for x in v\<close>: the elements of a list, the characters of a string, the keys of a
  dictionary; any other value is not iterable.
\<close>

fun iterate :: "pyval \<Rightarrow> py_exception + pyval list" where
  "iterate (PList xs) = Inr xs"
| "iterate (PStr s) = Inr (map (\<lambda>c. PStr [c]) s)"
| "iterate (PDict kvs) = Inr (map (\<lambda>kv. PStr (fst kv)) kvs)"
| "iterate v = Inl TypeError"

text \<open>The loop over \<^verbatim>\<open>import_paths\<close>, on the command line built so far.\<close>

fun import_paths_loop :: "string \<Rightarrow> pyval list \<Rightarrow> string list \<Rightarrow> py_exception + string list" where
  "import_paths_loop repository_root_path [] cmd = Inr cmd"
| "import_paths_loop repository_root_path (import_path # rest) cmd =
     and_then (absolute_in repository_root_path import_path)
       (\<lambda>p. import_paths_loop repository_root_path rest (cmd @ [''-I'', p]))"

text \<open>
  The command line of \<^verbatim>\<open>QmlLanguageServer.__init__\<close>, one definition per block of the
  source, each taking the list \<^verbatim>\<open>cmd\<close> built so far. \<open>qml_settings\<close> is the dictionary
  that \<^verbatim>\<open>solidlsp_settings.get_ls_specific_settings(config.code_language)\<close> returns.
\<close>

definition add_build_dir :: "(string \<rightharpoonup> pyval) \<Rightarrow> string \<Rightarrow> string list \<Rightarrow> py_exception + string list" where
  "add_build_dir qml_settings root cmd =
     (let build_dir = dict_get qml_settings ''build_dir''
      in if truthy build_dir
         then and_then (absolute_in root build_dir) (\<lambda>p. Inr (cmd @ [''--build-dir'', p]))
         else Inr cmd)"

definition add_import_paths :: "(string \<rightharpoonup> pyval) \<Rightarrow> string \<Rightarrow> string list \<Rightarrow> py_exception + string list" where
  "add_import_paths qml_settings root cmd =
     (let import_paths = dict_get qml_settings ''import_paths''
      in if truthy import_paths
         then and_then (iterate import_paths) (\<lambda>xs. import_paths_loop root xs cmd)
         else Inr cmd)"

definition add_flags :: "(string \<rightharpoonup> pyval) \<Rightarrow> string list \<Rightarrow> string list" where
  "add_flags qml_settings cmd =
     (let cmd1 = (if truthy (dict_get qml_settings ''use_environment_import_paths'')
                  then cmd @ [''-E''] else cmd)
      in if truthy (dict_get qml_settings ''no_cmake_calls'')
         then cmd1 @ [''--no-cmake-calls''] else cmd1)"

definition add_doc_dir :: "(string \<rightharpoonup> pyval) \<Rightarrow> string \<Rightarrow> string list \<Rightarrow> py_exception + string list" where
  "add_doc_dir qml_settings root cmd =
     (let doc_dir = dict_get qml_settings ''doc_dir''
      in if truthy doc_dir
         then and_then (absolute_in root doc_dir) (\<lambda>p. Inr (cmd @ [''-d'', p]))
         else Inr cmd)"

record ProcessLaunchInfo =
  cmd :: "string list"
  cwd :: string

text \<open>
  What \<^verbatim>\<open>__init__\<close> hands to the superclass constructor and sets afterwards. The
  superclass constructor is not part of the adapter: it is taken to keep its arguments.
\<close>

record QmlLanguageServer =
  repository_root_path :: string
  process_launch_info :: ProcessLaunchInfo
  language_id :: string
  request_id :: int

text \<open>
  \<^verbatim>\<open>QmlLanguageServer.__init__\<close>. \<open>run\<close> is what the probe's \<^verbatim>\<open>subprocess.run\<close> does on
  this machine.
\<close>

definition init :: "run_result \<Rightarrow> (string \<rightharpoonup> pyval) \<Rightarrow> string \<Rightarrow> py_exception + QmlLanguageServer" where
  "init run qml_settings root =
     and_then (setup_runtime_dependency run) (\<lambda>_.
     and_then (add_build_dir qml_settings root [''qmlls'']) (\<lambda>cmd1.
     and_then (add_import_paths qml_settings root cmd1) (\<lambda>cmd2.
     and_then (add_doc_dir qml_settings root (add_flags qml_settings cmd2)) (\<lambda>cmd3.
     Inr \<lparr> repository_root_path = root,
           process_launch_info = \<lparr> cmd = cmd3, cwd = root \<rparr>,
           language_id = ''qml'',
           request_id = 0 \<rparr>))))"

subsection \<open>The documented mapping from settings to arguments\<close>

text \<open>
  The docstring of the constructor, in its own words: \<^verbatim>\<open>build_dir: str\<close> is passed as
  \<^verbatim>\<open>--build-dir\<close>, each of \<^verbatim>\<open>import_paths: list[str]\<close> as \<^verbatim>\<open>-I\<close>,
  \<^verbatim>\<open>use_environment_import_paths: bool\<close> as \<^verbatim>\<open>-E\<close>, \<^verbatim>\<open>no_cmake_calls: bool\<close> as
  \<^verbatim>\<open>--no-cmake-calls\<close> and \<^verbatim>\<open>doc_dir: str\<close> as \<^verbatim>\<open>-d\<close>; a relative path is joined onto
  the repository root.
\<close>

definition made_absolute :: "string \<Rightarrow> string \<Rightarrow> string" where
  "made_absolute root p = (if isabs p then p else join root p)"

fun path_setting_args :: "string \<Rightarrow> string \<Rightarrow> pyval option \<Rightarrow> string list" where
  "path_setting_args flag root (Some (PStr p)) =
     (if p = [] then [] else [flag, made_absolute root p])"
| "path_setting_args flag root v = []"

fun import_paths_args :: "string \<Rightarrow> pyval option \<Rightarrow> string list" where
  "import_paths_args root (Some (PList xs)) =
     concat (map (\<lambda>x. case x of PStr p \<Rightarrow> [''-I'', made_absolute root p] | _ \<Rightarrow> []) xs)"
| "import_paths_args root v = []"

fun flag_setting_args :: "string \<Rightarrow> pyval option \<Rightarrow> string list" where
  "flag_setting_args flag (Some v) = (if truthy v then [flag] else [])"
| "flag_setting_args flag None = []"

definition documented_args :: "(string \<rightharpoonup> pyval) \<Rightarrow> string \<Rightarrow> string list" where
  "documented_args qml_settings root =
     path_setting_args ''--build-dir'' root (qml_settings ''build_dir'') @
     import_paths_args root (qml_settings ''import_paths'') @
     flag_setting_args ''-E'' (qml_settings ''use_environment_import_paths'') @
     flag_setting_args ''--no-cmake-calls'' (qml_settings ''no_cmake_calls'') @
     path_setting_args ''-d'' root (qml_settings ''doc_dir'')"

text \<open>
  The documented types: a path setting is absent, \<^verbatim>\<open>None\<close> or a string;
  \<^verbatim>\<open>import_paths\<close> is absent, \<^verbatim>\<open>None\<close> or a list of strings. The two flags may hold
  any value.
\<close>

fun is_str :: "pyval \<Rightarrow> bool" where
  "is_str (PStr s) = True"
| "is_str v = False"

fun str_setting :: "pyval option \<Rightarrow> bool" where
  "str_setting None = True"
| "str_setting (Some PNone) = True"
| "str_setting (Some (PStr s)) = True"
| "str_setting (Some v) = False"

fun str_list_setting :: "pyval option \<Rightarrow> bool" where
  "str_list_setting None = True"
| "str_list_setting (Some PNone) = True"
| "str_list_setting (Some (PList xs)) = list_all is_str xs"
| "str_list_setting (Some v) = False"

definition documented_types :: "(string \<rightharpoonup> pyval) \<Rightarrow> bool" where
  "documented_types qml_settings =
     (str_setting (qml_settings ''build_dir'') \<and>
      str_list_setting (qml_settings ''import_paths'') \<and>
      str_setting (qml_settings ''doc_dir''))"

section \<open>The initialize parameters\<close>

text \<open>\<^verbatim>\<open>list(range(a, b))\<close>.\<close>

definition list_range :: "int \<Rightarrow> int \<Rightarrow> int list" where
  "list_range a b = [a..b - 1]"

text \<open>
  \<^verbatim>\<open>QmlLanguageServer._get_initialize_params\<close>. \<open>pid\<close> is what \<^verbatim>\<open>os.getpid()\<close> returns in
  the running process.
\<close>

definition get_initialize_params :: "int \<Rightarrow> string \<Rightarrow> py_exception + pyval" where
  "get_initialize_params pid repository_absolute_path =
     and_then (as_uri repository_absolute_path) (\<lambda>root_uri.
     Inr (PDict
       [(''locale'', PStr ''en''),
        (''capabilities'', PDict
           [(''textDocument'', PDict
               [(''synchronization'',
                   PDict [(''didSave'', PBool True), (''dynamicRegistration'', PBool True)]),
                (''definition'', PDict [(''dynamicRegistration'', PBool True)]),
                (''documentSymbol'', PDict
                   [(''dynamicRegistration'', PBool True),
                    (''hierarchicalDocumentSymbolSupport'', PBool True),
                    (''symbolKind'', PDict [(''valueSet'', PList (map PInt (list_range 1 27)))])])]),
            (''workspace'', PDict
               [(''workspaceFolders'', PBool True),
                (''didChangeConfiguration'', PDict [(''dynamicRegistration'', PBool True)])])]),
        (''processId'', PInt pid),
        (''rootPath'', PStr repository_absolute_path),
        (''rootUri'', PStr root_uri),
        (''workspaceFolders'', PList
           [PDict [(''uri'', PStr root_uri),
                   (''name'', PStr (basename repository_absolute_path))]])]))"

text \<open>Reading a payload along a path of keys, as \<^verbatim>\<open>d[k1][k2]...\<close> does.\<close>

fun lookup_path :: "pyval \<Rightarrow> string list \<Rightarrow> py_exception + pyval" where
  "lookup_path v [] = Inr v"
| "lookup_path v (k # ks) = and_then (subscript v k) (\<lambda>w. lookup_path w ks)"

section \<open>Starting the server\<close>

text \<open>The three callbacks that \<^verbatim>\<open>_start_server\<close> defines.\<close>

datatype handler = register_capability_handler | window_log_message | do_nothing

text \<open>
  What can be observed of a run, in order: the calls of \<^verbatim>\<open>_start_server\<close> on the server
  handle and on the logger, and what the handle does with the messages the server sends.
\<close>

datatype event =
    OnRequest string handler
  | OnNotification string handler
  | LogInfo string
  | Start
  | SendInitialize pyval
  | NotifyInitialized pyval
  | Called string handler pyval
  | LogWindowMessage pyval
  | Dropped string
  | MethodNotFound string

text \<open>
  The bodies of the callbacks: two return at once, \<^verbatim>\<open>window_log_message\<close> logs
  \<^verbatim>\<open>f"LSP: window/logMessage: {msg}"\<close>.
\<close>

fun run_handler :: "handler \<Rightarrow> pyval \<Rightarrow> event list" where
  "run_handler register_capability_handler params = []"
| "run_handler window_log_message msg = [LogWindowMessage msg]"
| "run_handler do_nothing params = []"

text \<open>A message the server sends on its own (spec, section 3, Message).\<close>

datatype inbound = Notification string pyval | Request string pyval

text \<open>
  Modelled from the spec: the server handle \<^verbatim>\<open>self.server\<close> (the core's
  \<^verbatim>\<open>LanguageServerHandler\<close>) is not part of the adapter. Spec, section 3, HandlerTable: a
  mapping from method name to callback, one table per message direction, the last
  registration wins.
\<close>

record server =
  request_handlers :: "string \<rightharpoonup> handler"
  notification_handlers :: "string \<rightharpoonup> handler"
  trace :: "event list"

text \<open>
  What the language server process and the machine do in one run: the process id, whether
  the process can be spawned, the messages the server sends after it has received the
  initialize request and before it answers it, the answer (a result payload, or the error
  the request ends with), and whether the initialized notification can be written.
\<close>

record environment =
  getpid :: int
  spawn :: "error_kind option"
  pushed :: "inbound list"
  initialize_result :: "error_kind + pyval"
  initialized_write :: "error_kind option"

definition record_event :: "event \<Rightarrow> server \<Rightarrow> server" where
  "record_event ev s = s\<lparr>trace := trace s @ [ev]\<rparr>"

text \<open>\<^verbatim>\<open>log.info(msg)\<close>.\<close>

definition log_info :: "string \<Rightarrow> server \<Rightarrow> server" where
  "log_info msg s = record_event (LogInfo msg) s"

text \<open>
  Modelled from the spec: \<^verbatim>\<open>server.on_request\<close> and \<^verbatim>\<open>server.on_notification\<close>, missing
  from the sources. Spec, section 4.4: they register a callback for a method name.
\<close>

definition on_request :: "string \<Rightarrow> handler \<Rightarrow> server \<Rightarrow> server" where
  "on_request method h s =
     record_event (OnRequest method h) (s\<lparr>request_handlers := (request_handlers s)(method \<mapsto> h)\<rparr>)"

definition on_notification :: "string \<Rightarrow> handler \<Rightarrow> server \<Rightarrow> server" where
  "on_notification method h s =
     record_event (OnNotification method h)
       (s\<lparr>notification_handlers := (notification_handlers s)(method \<mapsto> h)\<rparr>)"

text \<open>
  Modelled from the spec: the dispatch of one inbound message, missing from the sources.
  Spec, section 4.4: a registered callback is executed on delivery; an unregistered
  request method gets a "method not found" error response; an unregistered notification
  is silently dropped.
\<close>

fun dispatch :: "inbound \<Rightarrow> server \<Rightarrow> server" where
  "dispatch (Notification method params) s =
     (case notification_handlers s method of
        Some h \<Rightarrow> s\<lparr>trace := trace s @ Called method h params # run_handler h params\<rparr>
      | None \<Rightarrow> record_event (Dropped method) s)"
| "dispatch (Request method params) s =
     (case request_handlers s method of
        Some h \<Rightarrow> s\<lparr>trace := trace s @ Called method h params # run_handler h params\<rparr>
      | None \<Rightarrow> record_event (MethodNotFound method) s)"

text \<open>The read loop delivers the messages in the order the server wrote them (section 4.2).\<close>

fun deliver :: "inbound list \<Rightarrow> server \<Rightarrow> server" where
  "deliver [] s = s"
| "deliver (m # ms) s = deliver ms (dispatch m s)"

text \<open>
  Modelled from the spec: \<^verbatim>\<open>server.start()\<close>, missing from the sources. Spec, sections 4.1
  and 4.5: it spawns the process and fails with StartupError when that cannot be done.
\<close>

definition server_start :: "environment \<Rightarrow> server \<Rightarrow> py_exception option \<times> server" where
  "server_start env s =
     (case spawn env of
        Some k \<Rightarrow> (Some (CoreError k), record_event Start s)
      | None \<Rightarrow> (None, record_event Start s))"

text \<open>
  Modelled from the spec: \<^verbatim>\<open>server.send.initialize(params)\<close>, missing from the sources.
  Spec, section 4.3: the request is written and the caller is suspended until the
  response arrives or the request fails; what the server sends in between is dispatched.
\<close>

definition send_initialize :: "environment \<Rightarrow> pyval \<Rightarrow> server \<Rightarrow> (py_exception + pyval) \<times> server" where
  "send_initialize env params s =
     (let s' = deliver (pushed env) (record_event (SendInitialize params) s)
      in case initialize_result env of
           Inl k \<Rightarrow> (Inl (CoreError k), s')
         | Inr init_response \<Rightarrow> (Inr init_response, s'))"

text \<open>
  Modelled from the spec: \<^verbatim>\<open>server.notify.initialized(params)\<close>, missing from the sources.
  Spec, sections 4.2 and 4.3: the notification is written and the call returns at once; the
  write fails when the stream is closed, and then nothing is sent.
\<close>

definition notify_initialized :: "environment \<Rightarrow> pyval \<Rightarrow> server \<Rightarrow> py_exception option \<times> server" where
  "notify_initialized env params s =
     (case initialized_write env of
        Some k \<Rightarrow> (Some (CoreError k), s)
      | None \<Rightarrow> (None, record_event (NotifyInitialized params) s))"

text \<open>
  The condition of the \<^verbatim>\<open>assert\<close>: \<^verbatim>\<open>"textDocumentSync" in init_response["capabilities"]\<close>.
\<close>

definition text_document_sync_present :: "pyval \<Rightarrow> py_exception + bool" where
  "text_document_sync_present init_response =
     and_then (subscript init_response ''capabilities'') (contains ''textDocumentSync'')"

text \<open>
  \<^verbatim>\<open>QmlLanguageServer._start_server\<close>, on the instance's repository root and server
  handle. The result is the exception the call ends with, if any, and the handle as the
  call leaves it.
\<close>

definition start_server :: "environment \<Rightarrow> string \<Rightarrow> server \<Rightarrow> py_exception option \<times> server" where
  "start_server env root srv =
     (let s1 = on_request ''client/registerCapability'' register_capability_handler srv;
          s2 = on_notification ''window/logMessage'' window_log_message s1;
          s3 = on_notification ''$/progress'' do_nothing s2;
          s4 = on_notification ''textDocument/publishDiagnostics'' do_nothing s3;
          s5 = log_info ''Starting qmlls server process'' s4
      in case server_start env s5 of
           (Some e, s6) \<Rightarrow> (Some e, s6)
         | (None, s6) \<Rightarrow>
             (case get_initialize_params (getpid env) root of
                Inl e \<Rightarrow> (Some e, s6)
              | Inr initialize_params \<Rightarrow>
                  (let s7 = log_info ''Sending initialize request from LSP client to LSP server and awaiting response'' s6
                   in case send_initialize env initialize_params s7 of
                        (Inl e, s8) \<Rightarrow> (Some e, s8)
                      | (Inr init_response, s8) \<Rightarrow>
                          (case text_document_sync_present init_response of
                             Inl e \<Rightarrow> (Some e, s8)
                           | Inr present \<Rightarrow>
                               if \<not> present then (Some AssertionError, s8)
                               else notify_initialized env (PDict []) s8))))"

text \<open>
  Modelled from the spec: the connection state of the core (sections 3 and 4.5), missing
  from the sources. A handshake that completes leaves the connection Ready; one that
  fails leaves it Terminated, torn down with the exception that ended it.
\<close>

datatype connection_state =
    Created | Starting | Initializing | Ready | ShuttingDown | Terminated py_exception

fun connection_after :: "py_exception option \<times> server \<Rightarrow> connection_state" where
  "connection_after (None, s) = Ready"
| "connection_after (Some e, s) = Terminated e"

text \<open>
  Modelled from the spec: the class of section 7 that an exception leaving
  \<^verbatim>\<open>_start_server\<close> falls into. An error of the core has its own class; the exceptions by
  which \<^verbatim>\<open>_start_server\<close> rejects an initialize response are HandshakeError, "the response
  is well-formed JSON-RPC but lacks a protocol-required field" (section 4.5). The spec has
  no class for the others.
\<close>

fun error_kind_of :: "py_exception \<Rightarrow> error_kind option" where
  "error_kind_of (CoreError k) = Some k"
| "error_kind_of AssertionError = Some HandshakeError"
| "error_kind_of (KeyError k) = Some HandshakeError"
| "error_kind_of TypeError = Some HandshakeError"
| "error_kind_of e = None"

text \<open>
  The states the handle goes through in \<^verbatim>\<open>_start_server\<close>: with the four handlers
  registered, with the process started, and with the initialize request sent and the
  messages that came before its answer dispatched.
\<close>

definition registered :: "server \<Rightarrow> server" where
  "registered srv =
     on_notification ''textDocument/publishDiagnostics'' do_nothing
       (on_notification ''$/progress'' do_nothing
          (on_notification ''window/logMessage'' window_log_message
             (on_request ''client/registerCapability'' register_capability_handler srv)))"

definition started :: "server \<Rightarrow> server" where
  "started srv =
     record_event Start (log_info ''Starting qmlls server process'' (registered srv))"

definition sent :: "environment \<Rightarrow> pyval \<Rightarrow> server \<Rightarrow> server" where
  "sent env params srv =
     deliver (pushed env)
       (record_event (SendInitialize params)
          (log_info ''Sending initialize request from LSP client to LSP server and awaiting response''
             (started srv)))"

text \<open>The events that dispatching a message leaves.\<close>

fun is_dispatch_event :: "event \<Rightarrow> bool" where
  "is_dispatch_event (Called m h p) = True"
| "is_dispatch_event (LogWindowMessage p) = True"
| "is_dispatch_event (Dropped m) = True"
| "is_dispatch_event (MethodNotFound m) = True"
| "is_dispatch_event ev = False"

text \<open>The events of one call: what the handle's trace has gained.\<close>

definition new_events :: "server \<Rightarrow> server \<Rightarrow> event list" where
  "new_events before after = drop (length (trace before)) (trace after)"

text \<open>The four default handlers, as \<^verbatim>\<open>_start_server\<close> registers them.\<close>

definition default_registrations :: "event list" where
  "default_registrations =
     [OnRequest ''client/registerCapability'' register_capability_handler,
      OnNotification ''window/logMessage'' window_log_message,
      OnNotification ''$/progress'' do_nothing,
      OnNotification ''textDocument/publishDiagnostics'' do_nothing]"

fun is_initialize_request :: "event \<Rightarrow> bool" where
  "is_initialize_request (SendInitialize params) = True"
| "is_initialize_request ev = False"

fun is_initialized_notification :: "event \<Rightarrow> bool" where
  "is_initialized_notification (NotifyInitialized params) = True"
| "is_initialized_notification ev = False"

text \<open>
  An initialize result without the capability: a dictionary with no \<^verbatim>\<open>capabilities\<close>
  member, or one whose \<^verbatim>\<open>capabilities\<close> member is a dictionary with no
  \<^verbatim>\<open>textDocumentSync\<close> key.
\<close>

fun lacks_text_document_sync :: "pyval \<Rightarrow> bool" where
  "lacks_text_document_sync (PDict kvs) =
     (case map_of kvs ''capabilities'' of
        None \<Rightarrow> True
      | Some (PDict caps) \<Rightarrow> ''textDocumentSync'' \<notin> set (map fst caps)
      | Some v \<Rightarrow> False)"
| "lacks_text_document_sync v = False"

text \<open>An initialize result with the capability, as the type \<^verbatim>\<open>InitializeResult\<close> has it.\<close>

fun has_text_document_sync :: "pyval \<Rightarrow> bool" where
  "has_text_document_sync (PDict kvs) =
     (case map_of kvs ''capabilities'' of
        Some (PDict caps) \<Rightarrow> ''textDocumentSync'' \<in> set (map fst caps)
      | _ \<Rightarrow> False)"
| "has_text_document_sync v = False"

section \<open>Sample inputs\<close>

text \<open>The probe found an executable and ran it: \<^verbatim>\<open>subprocess.run\<close> returned.\<close>

definition qmlls_found :: "run_result \<Rightarrow> bool" where
  "qmlls_found run = (case run of CompletedProcess rc out \<Rightarrow> True | Raises e \<Rightarrow> False)"

definition sample_settings :: "string \<rightharpoonup> pyval" where
  "sample_settings =
     [''build_dir'' \<mapsto> PStr ''build'',
      ''import_paths'' \<mapsto> PList [PStr ''qml/imports'', PStr ''/opt/qt/qml''],
      ''use_environment_import_paths'' \<mapsto> PBool True,
      ''no_cmake_calls'' \<mapsto> PBool False,
      ''doc_dir'' \<mapsto> PStr ''/usr/share/qt6/doc'']"

text \<open>A server that logs a message before it answers the initialize request.\<close>

definition chatty_env :: environment where
  "chatty_env =
     \<lparr> getpid = 4242,
       spawn = None,
       pushed = [Notification ''window/logMessage''
                   (PDict [(''type'', PInt 3), (''message'', PStr ''indexing'')])],
       initialize_result =
         Inr (PDict [(''capabilities'', PDict [(''textDocumentSync'', PInt 1)])]),
       initialized_write = None \<rparr>"

text \<open>The same server, answering without the capability.\<close>

definition deficient_env :: environment where
  "deficient_env =
     chatty_env \<lparr> initialize_result :=
       Inr (PDict [(''capabilities'', PDict [(''hoverProvider'', PBool True)])]) \<rparr>"

definition fresh_server :: server where
  "fresh_server =
     \<lparr> request_handlers = Map.empty, notification_handlers = Map.empty, trace = [] \<rparr>"

section \<open>Basic facts\<close>

lemma and_then_simps [simp]:
  "and_then (Inl e) f = Inl e"
  "and_then (Inr x) f = f x"
  by (simp_all add: and_then_def)

lemma and_then_Inl:
  "and_then r f = Inl e \<longleftrightarrow> r = Inl e \<or> (\<exists>x. r = Inr x \<and> f x = Inl e)"
  by (cases r) simp_all

lemma strip_Nil: "strip [] = []"
  by (simp add: strip_def)

lemma setup_runtime_dependency_simps:
  "setup_runtime_dependency (Raises FileNotFoundError) = Inl (RuntimeError qmlls_missing_message)"
  "rc \<noteq> 0 \<Longrightarrow>
     setup_runtime_dependency (CompletedProcess rc out) = Inl (RuntimeError qmlls_missing_message)"
  "setup_runtime_dependency (CompletedProcess 0 out) = Inr True"
  by (simp_all add: setup_runtime_dependency_def)

section \<open>Ignored directories: the override only extends\<close>

text \<open>
  Claim C8. For every directory name, \<open>is_ignored_dirname\<close> is true when the name is
  \<^verbatim>\<open>build\<close> or \<^verbatim>\<open>node_modules\<close>, and it is true for every name the superclass method
  ignores, whatever that method is.
\<close>

theorem is_ignored_dirname_extends:
  "(dirname = ''build'' \<or> dirname = ''node_modules'' \<longrightarrow> is_ignored_dirname super dirname) \<and>
   (super dirname \<longrightarrow> is_ignored_dirname super dirname)"
  by (auto simp: is_ignored_dirname_def)

theorem is_ignored_dirname_extends_witness:
  "is_ignored_dirname (\<lambda>d. take 1 d = ''.'') ''build'' \<and>
   is_ignored_dirname (\<lambda>d. take 1 d = ''.'') ''node_modules'' \<and>
   (\<lambda>d. take 1 d = ''.'') ''.git'' \<and>
   is_ignored_dirname (\<lambda>d. take 1 d = ''.'') ''.git''"
  using is_ignored_dirname_extends [of "''build''" "\<lambda>d. take 1 d = ''.''"]
        is_ignored_dirname_extends [of "''node_modules''" "\<lambda>d. take 1 d = ''.''"]
        is_ignored_dirname_extends [of "''.git''" "\<lambda>d. take 1 d = ''.''"]
  by simp

section \<open>The probe\<close>

text \<open>
  Claim C9. \<open>get_qmlls_version\<close> never returns the empty string: whenever
  \<^verbatim>\<open>subprocess.run\<close> reports a missing executable or completes, the result is \<^verbatim>\<open>None\<close> or
  a string that is not empty (any other exception of \<^verbatim>\<open>subprocess.run\<close> is not caught and
  there is no result). The result is \<^verbatim>\<open>None\<close> when the executable is missing and when the
  return code is not zero; a run that succeeds with empty output, or with nothing but
  whitespace, gives the fixed string \<^verbatim>\<open>qmlls available\<close>.
\<close>

theorem get_qmlls_version_none_or_nonempty:
  "get_qmlls_version run \<noteq> Inr (Some []) \<and>
   ((\<forall>e. run = Raises e \<longrightarrow> e = FileNotFoundError) \<longrightarrow>
      get_qmlls_version run = Inr None \<or>
      (\<exists>s. s \<noteq> [] \<and> get_qmlls_version run = Inr (Some s))) \<and>
   get_qmlls_version (Raises FileNotFoundError) = Inr None \<and>
   (rc \<noteq> 0 \<longrightarrow> get_qmlls_version (CompletedProcess rc out) = Inr None) \<and>
   (strip out = [] \<longrightarrow>
      get_qmlls_version (CompletedProcess 0 out) = Inr (Some ''qmlls available'')) \<and>
   get_qmlls_version (CompletedProcess 0 []) = Inr (Some ''qmlls available'')"
  by (cases run) (auto simp: strip_Nil)

theorem get_qmlls_version_none_or_nonempty_witness:
  "get_qmlls_version (CompletedProcess 0 '' qmlls 6.8 '') = Inr (Some ''qmlls 6.8'') \<and>
   get_qmlls_version (CompletedProcess 2 ''no'') = Inr None \<and>
   strip [CHR 0x20, CHR 0x0A] = [] \<and>
   get_qmlls_version (CompletedProcess 0 [CHR 0x20, CHR 0x0A]) = Inr (Some ''qmlls available'')"
proof -
  have s: "strip [CHR 0x20, CHR 0x0A] = []"
    by (simp add: strip_def py_isspace_def)
  have v: "get_qmlls_version (CompletedProcess 0 '' qmlls 6.8 '') = Inr (Some ''qmlls 6.8'')"
    by (simp add: strip_def py_isspace_def)
  show ?thesis
    using s v
      get_qmlls_version_none_or_nonempty [of "CompletedProcess 0 '' qmlls 6.8 ''" 2 "''no''"]
      get_qmlls_version_none_or_nonempty [of "CompletedProcess 0 []" 2 "[CHR 0x20, CHR 0x0A]"]
    by simp
qed

subsection \<open>The dependency check in the constructor\<close>

lemma absolute_in_Inl: "absolute_in root v = Inl e \<Longrightarrow> e = TypeError"
  by (cases v) auto

lemma iterate_Inl: "iterate v = Inl e \<Longrightarrow> e = TypeError"
  by (cases v) auto

lemma import_paths_loop_Inl: "import_paths_loop root xs acc = Inl e \<Longrightarrow> e = TypeError"
  by (induction xs arbitrary: acc) (auto simp: and_then_Inl dest: absolute_in_Inl)

lemma add_build_dir_Inl: "add_build_dir s root acc = Inl e \<Longrightarrow> e = TypeError"
  by (auto simp: add_build_dir_def Let_def and_then_Inl split: if_splits dest: absolute_in_Inl)

lemma add_doc_dir_Inl: "add_doc_dir s root acc = Inl e \<Longrightarrow> e = TypeError"
  by (auto simp: add_doc_dir_def Let_def and_then_Inl split: if_splits dest: absolute_in_Inl)

lemma add_import_paths_Inl: "add_import_paths s root acc = Inl e \<Longrightarrow> e = TypeError"
  by (auto simp: add_import_paths_def Let_def and_then_Inl split: if_splits
           dest: iterate_Inl import_paths_loop_Inl)

text \<open>Once the dependency check has passed, the constructor can only raise \<^verbatim>\<open>TypeError\<close>.\<close>

lemma init_Inl:
  "setup_runtime_dependency run = Inr b \<Longrightarrow> init run s root = Inl e \<Longrightarrow> e = TypeError"
  by (auto simp: init_def and_then_Inl
           dest: add_build_dir_Inl add_doc_dir_Inl add_import_paths_Inl)

lemma init_not_RuntimeError:
  "setup_runtime_dependency run = Inr True \<Longrightarrow> init run s root \<noteq> Inl (RuntimeError m)"
  using init_Inl by fastforce

text \<open>
  Claim C4, as it is stated, fails in two places. The probe catches only
  \<^verbatim>\<open>FileNotFoundError\<close>: any other exception of \<^verbatim>\<open>subprocess.run\<close> (here
  \<^verbatim>\<open>PermissionError\<close>, for an executable that may not be run) leaves the probe and the
  constructor as it is, and is not the \<^verbatim>\<open>RuntimeError\<close> of the dependency check. And an
  executable that is found but whose \<^verbatim>\<open>--help\<close> run ends with a return code other than
  zero makes the probe return \<^verbatim>\<open>None\<close>, and the constructor raises the same error as for
  a missing executable.
\<close>

theorem probe_boundary_counterexample:
  "get_qmlls_version (Raises PermissionError) = Inl PermissionError \<and>
   setup_runtime_dependency (Raises PermissionError) = Inl PermissionError \<and>
   init (Raises PermissionError) Map.empty ''/repo'' = Inl PermissionError \<and>
   PermissionError \<noteq> RuntimeError qmlls_missing_message \<and>
   qmlls_found (CompletedProcess 1 []) \<and>
   get_qmlls_version (CompletedProcess 1 []) = Inr None \<and>
   setup_runtime_dependency (CompletedProcess 1 []) = Inl (RuntimeError qmlls_missing_message) \<and>
   init (CompletedProcess 1 []) Map.empty ''/repo'' = Inl (RuntimeError qmlls_missing_message)"
  by (simp add: qmlls_found_def init_def setup_runtime_dependency_def)

text \<open>
  Claim C4, amended. The probe catches \<^verbatim>\<open>FileNotFoundError\<close> and nothing else. When the
  executable cannot be found the probe returns \<^verbatim>\<open>None\<close> and does not raise, and the
  constructor fails with one \<^verbatim>\<open>RuntimeError\<close>; the same holds when \<^verbatim>\<open>subprocess.run\<close>
  returns a completed process whose return code is not zero. Any other exception of
  \<^verbatim>\<open>subprocess.run\<close> passes through the probe, the dependency check and the constructor
  unchanged, as the one exception of the failed construction. When \<^verbatim>\<open>subprocess.run\<close>
  returns a completed process with return code zero the dependency check passes, and the
  constructor raises no \<^verbatim>\<open>RuntimeError\<close>. In no other case does the constructor return:
  each of these failures comes before any launch specification is built.
\<close>

theorem probe_single_startup_error:
  "get_qmlls_version (Raises FileNotFoundError) = Inr None \<and>
   init (Raises FileNotFoundError) qml_settings root = Inl (RuntimeError qmlls_missing_message) \<and>
   (rc \<noteq> 0 \<longrightarrow>
      get_qmlls_version (CompletedProcess rc out) = Inr None \<and>
      init (CompletedProcess rc out) qml_settings root = Inl (RuntimeError qmlls_missing_message)) \<and>
   (e \<noteq> FileNotFoundError \<longrightarrow>
      get_qmlls_version (Raises e) = Inl e \<and>
      setup_runtime_dependency (Raises e) = Inl e \<and>
      init (Raises e) qml_settings root = Inl e) \<and>
   setup_runtime_dependency (CompletedProcess 0 out) = Inr True \<and>
   (\<forall>m. init (CompletedProcess 0 out) qml_settings root \<noteq> Inl (RuntimeError m)) \<and>
   (\<forall>server. init run qml_settings root = Inr server \<longrightarrow>
      (\<exists>out'. run = CompletedProcess 0 out'))"
proof -
  have built: "\<exists>out'. run = CompletedProcess 0 out'"
    if "init run qml_settings root = Inr server" for server
  proof (cases run)
    case (Raises x)
    with that show ?thesis
      by (cases "x = FileNotFoundError") (simp_all add: init_def setup_runtime_dependency_def)
  next
    case (CompletedProcess c t)
    with that show ?thesis
      by (cases "c = 0") (simp_all add: init_def setup_runtime_dependency_simps)
  qed
  show ?thesis
    using init_not_RuntimeError [of "CompletedProcess 0 out" qml_settings root] built
    by (auto simp: init_def setup_runtime_dependency_def)
qed

theorem probe_single_startup_error_witness:
  "(1::int) \<noteq> 0 \<and> UnicodeDecodeError \<noteq> FileNotFoundError \<and>
   get_qmlls_version (CompletedProcess 1 ''failed'') = Inr None \<and>
   init (CompletedProcess 1 ''failed'') Map.empty ''/repo'' = Inl (RuntimeError qmlls_missing_message) \<and>
   init (Raises FileNotFoundError) Map.empty ''/repo'' = Inl (RuntimeError qmlls_missing_message) \<and>
   get_qmlls_version (Raises UnicodeDecodeError) = Inl UnicodeDecodeError \<and>
   init (Raises UnicodeDecodeError) Map.empty ''/repo'' = Inl UnicodeDecodeError \<and>
   setup_runtime_dependency (CompletedProcess 0 ''Usage: qmlls'') = Inr True \<and>
   init (CompletedProcess 0 ''Usage: qmlls'') Map.empty ''/repo'' =
     Inr \<lparr> repository_root_path = ''/repo'',
           process_launch_info = \<lparr> cmd = [''qmlls''], cwd = ''/repo'' \<rparr>,
           language_id = ''qml'',
           request_id = 0 \<rparr> \<and>
   (\<exists>out'. CompletedProcess 0 ''Usage: qmlls'' = CompletedProcess 0 out')"
proof -
  have i: "init (CompletedProcess 0 ''Usage: qmlls'') Map.empty ''/repo'' =
     Inr \<lparr> repository_root_path = ''/repo'',
           process_launch_info = \<lparr> cmd = [''qmlls''], cwd = ''/repo'' \<rparr>,
           language_id = ''qml'',
           request_id = 0 \<rparr>"
    by (simp add: init_def setup_runtime_dependency_simps add_build_dir_def
          add_import_paths_def add_flags_def add_doc_dir_def dict_get_def)
  show ?thesis
    using i
      probe_single_startup_error
        [of Map.empty "''/repo''" 1 "''failed''" UnicodeDecodeError
            "CompletedProcess 0 ''Usage: qmlls''"]
      probe_single_startup_error
        [of Map.empty "''/repo''" 1 "''Usage: qmlls''" UnicodeDecodeError
            "CompletedProcess 0 ''Usage: qmlls''"]
    by simp
qed

section \<open>The launch specification\<close>

lemma import_paths_loop_strs:
  "list_all is_str xs \<Longrightarrow>
   import_paths_loop root xs acc =
     Inr (acc @ concat (map (\<lambda>x. case x of PStr p \<Rightarrow> [''-I'', made_absolute root p] | _ \<Rightarrow> []) xs))"
proof (induction xs arbitrary: acc)
  case Nil
  then show ?case by simp
next
  case (Cons x xs)
  then obtain p where "x = PStr p" by (cases x) auto
  with Cons show ?case by (simp add: made_absolute_def)
qed

lemma add_build_dir_documented:
  "str_setting (s ''build_dir'') \<Longrightarrow>
   add_build_dir s root acc = Inr (acc @ path_setting_args ''--build-dir'' root (s ''build_dir''))"
  by (cases "s ''build_dir''" rule: str_setting.cases)
     (auto simp: add_build_dir_def dict_get_def made_absolute_def)

lemma add_doc_dir_documented:
  "str_setting (s ''doc_dir'') \<Longrightarrow>
   add_doc_dir s root acc = Inr (acc @ path_setting_args ''-d'' root (s ''doc_dir''))"
  by (cases "s ''doc_dir''" rule: str_setting.cases)
     (auto simp: add_doc_dir_def dict_get_def made_absolute_def)

lemma add_import_paths_documented:
  "str_list_setting (s ''import_paths'') \<Longrightarrow>
   add_import_paths s root acc = Inr (acc @ import_paths_args root (s ''import_paths''))"
  by (cases "s ''import_paths''" rule: str_list_setting.cases)
     (auto simp: add_import_paths_def dict_get_def import_paths_loop_strs)

lemma add_flags_documented:
  "add_flags s acc =
     acc @ flag_setting_args ''-E'' (s ''use_environment_import_paths'') @
           flag_setting_args ''--no-cmake-calls'' (s ''no_cmake_calls'')"
  by (cases "s ''use_environment_import_paths''"; cases "s ''no_cmake_calls''")
     (auto simp: add_flags_def dict_get_def Let_def)

text \<open>No setting, no argument.\<close>

lemma documented_args_empty: "documented_args Map.empty root = []"
  by (simp add: documented_args_def)

text \<open>
  Claim C5. For every settings dictionary whose values have the documented types, and
  on a machine where the dependency check passes, the constructor builds the launch
  specification whose command line is \<^verbatim>\<open>qmlls\<close> followed by the documented arguments
  (\<open>documented_args\<close>: \<^verbatim>\<open>--build-dir\<close> and the build directory, \<^verbatim>\<open>-I\<close> and the path for
  each import path, \<^verbatim>\<open>-E\<close> and \<^verbatim>\<open>--no-cmake-calls\<close> for the truthy flags, \<^verbatim>\<open>-d\<close> and the
  documentation directory, every relative path joined onto the repository root, nothing
  for an absent or falsy setting) and whose working directory is the repository root.
\<close>

theorem launch_spec_as_documented:
  assumes "documented_types qml_settings"
    and "setup_runtime_dependency run = Inr True"
  shows "init run qml_settings root =
           Inr \<lparr> repository_root_path = root,
                 process_launch_info =
                   \<lparr> cmd = ''qmlls'' # documented_args qml_settings root, cwd = root \<rparr>,
                 language_id = ''qml'',
                 request_id = 0 \<rparr>"
  using assms
  by (simp add: init_def documented_types_def documented_args_def add_build_dir_documented
        add_import_paths_documented add_doc_dir_documented add_flags_documented)

lemma sample_settings_types: "documented_types sample_settings"
  by (simp add: documented_types_def sample_settings_def)

lemma sample_settings_args:
  "documented_args sample_settings ''/home/u/proj'' =
     [''--build-dir'', ''/home/u/proj/build'', ''-I'', ''/home/u/proj/qml/imports'',
      ''-I'', ''/opt/qt/qml'', ''-E'', ''-d'', ''/usr/share/qt6/doc'']"
  by (simp add: documented_args_def sample_settings_def made_absolute_def isabs_def join_def)

theorem launch_spec_as_documented_witness:
  "documented_types sample_settings \<and>
   setup_runtime_dependency (CompletedProcess 0 ''Usage: qmlls [options]'') = Inr True \<and>
   init (CompletedProcess 0 ''Usage: qmlls [options]'') sample_settings ''/home/u/proj'' =
     Inr \<lparr> repository_root_path = ''/home/u/proj'',
           process_launch_info =
             \<lparr> cmd = [''qmlls'', ''--build-dir'', ''/home/u/proj/build'',
                       ''-I'', ''/home/u/proj/qml/imports'', ''-I'', ''/opt/qt/qml'', ''-E'',
                       ''-d'', ''/usr/share/qt6/doc''],
               cwd = ''/home/u/proj'' \<rparr>,
           language_id = ''qml'',
           request_id = 0 \<rparr>"
proof -
  have t: "documented_types sample_settings" by (rule sample_settings_types)
  have d: "setup_runtime_dependency (CompletedProcess 0 ''Usage: qmlls [options]'') = Inr True"
    by (rule setup_runtime_dependency_simps)
  show ?thesis
    using t d launch_spec_as_documented [OF t d, of "''/home/u/proj''"]
    by (simp add: sample_settings_args)
qed

section \<open>The initialize parameters\<close>

lemma list_range_1_27:
  "list_range 1 27 =
     [1, 2, 3, 4, 5, 6, 7, 8, 9, 10, 11, 12, 13, 14, 15, 16, 17, 18, 19, 20, 21, 22, 23, 24, 25, 26]"
  unfolding list_range_def by (simp add: upto.simps)

lemma path_root_isabs: "isabs p \<Longrightarrow> path_root p \<noteq> []"
  by (cases p) (auto simp: isabs_def path_root_def Let_def)

lemma as_uri_isabs:
  "isabs p \<Longrightarrow> as_uri p = Inr (''file://'' @ quote_from_bytes (fsencode (path_str p)))"
  by (simp add: as_uri_def path_root_isabs)

lemma get_initialize_params_returns:
  "isabs p \<Longrightarrow> \<exists>params. get_initialize_params pid p = Inr params"
  by (simp add: get_initialize_params_def as_uri_isabs)

text \<open>
  Claim C6. For every absolute repository path the builder returns a payload whose
  \<^verbatim>\<open>rootPath\<close> is that path, whose \<^verbatim>\<open>rootUri\<close> is the file URI of that path, whose
  \<^verbatim>\<open>workspaceFolders\<close> is a list of exactly one folder, with that URI and with the basename
  of the path as its name, and whose \<^verbatim>\<open>processId\<close> is the id of the running process.
\<close>

theorem initialize_params_workspace:
  assumes "isabs p"
  shows "\<exists>params uri.
           get_initialize_params pid p = Inr params \<and>
           as_uri p = Inr uri \<and>
           uri = ''file://'' @ quote_from_bytes (fsencode (path_str p)) \<and>
           subscript params ''rootPath'' = Inr (PStr p) \<and>
           subscript params ''rootUri'' = Inr (PStr uri) \<and>
           subscript params ''workspaceFolders'' =
             Inr (PList [PDict [(''uri'', PStr uri), (''name'', PStr (basename p))]]) \<and>
           subscript params ''processId'' = Inr (PInt pid)"
  using assms by (simp add: get_initialize_params_def as_uri_isabs)

theorem initialize_params_workspace_witness:
  "isabs ''/home/u/my proj'' \<and>
   (\<exists>params.
      get_initialize_params 4242 ''/home/u/my proj'' = Inr params \<and>
      subscript params ''rootPath'' = Inr (PStr ''/home/u/my proj'') \<and>
      subscript params ''rootUri'' = Inr (PStr ''file:///home/u/my%20proj'') \<and>
      subscript params ''workspaceFolders'' =
        Inr (PList [PDict [(''uri'', PStr ''file:///home/u/my%20proj''),
                           (''name'', PStr ''my proj'')]]) \<and>
      subscript params ''processId'' = Inr (PInt 4242))"
proof -
  have a: "isabs ''/home/u/my proj''" by (simp add: isabs_def)
  have u: "as_uri ''/home/u/my proj'' = Inr ''file:///home/u/my%20proj''" by code_simp
  have b: "basename ''/home/u/my proj'' = ''my proj''" by code_simp
  show ?thesis
    using a u b initialize_params_workspace [OF a, of 4242] by auto
qed

text \<open>
  Claim C10. For every repository path for which the builder returns parameters (it
  does for every absolute path), the announced client capabilities declare hierarchical
  document symbol support, \<^verbatim>\<open>didSave\<close> synchronization, and a \<^verbatim>\<open>documentSymbol\<close>
  \<^verbatim>\<open>symbolKind\<close> value set that is the list of the integers 1 to 26.
\<close>

theorem initialize_params_capabilities:
  "(isabs p \<longrightarrow> (\<exists>params. get_initialize_params pid p = Inr params)) \<and>
   (get_initialize_params pid p = Inr params \<longrightarrow>
      lookup_path params
        [''capabilities'', ''textDocument'', ''documentSymbol'',
         ''hierarchicalDocumentSymbolSupport''] = Inr (PBool True) \<and>
      lookup_path params
        [''capabilities'', ''textDocument'', ''synchronization'', ''didSave''] =
        Inr (PBool True) \<and>
      lookup_path params
        [''capabilities'', ''textDocument'', ''documentSymbol'', ''symbolKind'', ''valueSet''] =
        Inr (PList (map PInt
          [1, 2, 3, 4, 5, 6, 7, 8, 9, 10, 11, 12, 13, 14, 15, 16, 17, 18, 19, 20, 21, 22, 23,
           24, 25, 26])))"
proof (intro conjI impI)
  assume "isabs p"
  then show "\<exists>params. get_initialize_params pid p = Inr params"
    by (rule get_initialize_params_returns)
next
  assume r: "get_initialize_params pid p = Inr params"
  then obtain uri where "as_uri p = Inr uri"
    by (cases "as_uri p") (simp_all add: get_initialize_params_def)
  with r have params: "params = PDict
       [(''locale'', PStr ''en''),
        (''capabilities'', PDict
           [(''textDocument'', PDict
               [(''synchronization'',
                   PDict [(''didSave'', PBool True), (''dynamicRegistration'', PBool True)]),
                (''definition'', PDict [(''dynamicRegistration'', PBool True)]),
                (''documentSymbol'', PDict
                   [(''dynamicRegistration'', PBool True),
                    (''hierarchicalDocumentSymbolSupport'', PBool True),
                    (''symbolKind'', PDict [(''valueSet'', PList (map PInt (list_range 1 27)))])])]),
            (''workspace'', PDict
               [(''workspaceFolders'', PBool True),
                (''didChangeConfiguration'', PDict [(''dynamicRegistration'', PBool True)])])]),
        (''processId'', PInt pid),
        (''rootPath'', PStr p),
        (''rootUri'', PStr uri),
        (''workspaceFolders'', PList
           [PDict [(''uri'', PStr uri), (''name'', PStr (basename p))]])]"
    by (simp add: get_initialize_params_def)
  show "lookup_path params
        [''capabilities'', ''textDocument'', ''documentSymbol'',
         ''hierarchicalDocumentSymbolSupport''] = Inr (PBool True)"
    unfolding params by simp
  show "lookup_path params
        [''capabilities'', ''textDocument'', ''synchronization'', ''didSave''] =
        Inr (PBool True)"
    unfolding params by simp
  show "lookup_path params
        [''capabilities'', ''textDocument'', ''documentSymbol'', ''symbolKind'', ''valueSet''] =
        Inr (PList (map PInt
          [1, 2, 3, 4, 5, 6, 7, 8, 9, 10, 11, 12, 13, 14, 15, 16, 17, 18, 19, 20, 21, 22, 23,
           24, 25, 26]))"
    unfolding params list_range_1_27 by simp
qed

theorem initialize_params_capabilities_witness:
  "isabs ''/home/u/proj'' \<and>
   (\<exists>params. get_initialize_params 7 ''/home/u/proj'' = Inr params \<and>
      lookup_path params
        [''capabilities'', ''textDocument'', ''documentSymbol'', ''symbolKind'', ''valueSet''] =
        Inr (PList (map PInt
          [1, 2, 3, 4, 5, 6, 7, 8, 9, 10, 11, 12, 13, 14, 15, 16, 17, 18, 19, 20, 21, 22, 23,
           24, 25, 26])) \<and>
      lookup_path params
        [''capabilities'', ''textDocument'', ''synchronization'', ''didSave''] =
        Inr (PBool True))"
proof -
  have a: "isabs ''/home/u/proj''" by (simp add: isabs_def)
  obtain params where p: "get_initialize_params 7 ''/home/u/proj'' = Inr params"
    using a initialize_params_capabilities [of "''/home/u/proj''" 7] by blast
  show ?thesis
    using a p initialize_params_capabilities [of "''/home/u/proj''" 7 params] by blast
qed

section \<open>The handshake\<close>

text \<open>
  Dispatching messages only appends dispatch events to the trace and leaves the handler
  tables as they are.
\<close>

lemma record_event_simps [simp]:
  "trace (record_event ev s) = trace s @ [ev]"
  "request_handlers (record_event ev s) = request_handlers s"
  "notification_handlers (record_event ev s) = notification_handlers s"
  by (simp_all add: record_event_def)

lemma run_handler_events: "list_all is_dispatch_event (run_handler h p)"
  by (cases h) simp_all

lemma dispatch_tables [simp]:
  "request_handlers (dispatch m s) = request_handlers s"
  "notification_handlers (dispatch m s) = notification_handlers s"
  by (cases m; simp split: option.splits)+

lemma dispatch_trace:
  "\<exists>evs. trace (dispatch m s) = trace s @ evs \<and> list_all is_dispatch_event evs"
  by (cases m) (auto simp: run_handler_events split: option.splits)

lemma deliver_tables [simp]:
  "request_handlers (deliver ms s) = request_handlers s"
  "notification_handlers (deliver ms s) = notification_handlers s"
  by (induction ms arbitrary: s; simp)+

lemma deliver_trace:
  "\<exists>evs. trace (deliver ms s) = trace s @ evs \<and> list_all is_dispatch_event evs"
proof (induction ms arbitrary: s)
  case Nil
  then show ?case by simp
next
  case (Cons m ms)
  obtain e1 where e1: "trace (dispatch m s) = trace s @ e1" "list_all is_dispatch_event e1"
    using dispatch_trace by blast
  obtain e2 where e2: "trace (deliver ms (dispatch m s)) = trace (dispatch m s) @ e2"
      "list_all is_dispatch_event e2"
    using Cons.IH by blast
  show ?case
    using e1 e2 by (intro exI [of _ "e1 @ e2"]) simp
qed

lemma deliver_mono: "set (trace s) \<subseteq> set (trace (deliver ms s))"
  using deliver_trace [of ms s] by auto

lemma deliver_called_new:
  assumes "x \<in> set ms"
    and "x = Notification m p \<and> notification_handlers s m = Some h \<or>
         x = Request m p \<and> request_handlers s m = Some h"
  shows "set (Called m h p # run_handler h p) \<subseteq> set (drop (length (trace s)) (trace (deliver ms s)))"
  using assms
proof (induction ms arbitrary: s)
  case Nil
  then show ?case by simp
next
  case (Cons y ms)
  obtain e1 where e1: "trace (dispatch y s) = trace s @ e1"
    using dispatch_trace by blast
  obtain e2 where e2: "trace (deliver ms (dispatch y s)) = trace (dispatch y s) @ e2"
    using deliver_trace by blast
  have all: "drop (length (trace s)) (trace (deliver (y # ms) s)) = e1 @ e2"
    using e1 e2 by simp
  show ?case
  proof (cases "y = x")
    case True
    have "e1 = Called m h p # run_handler h p"
      using True Cons.prems(2) e1 by auto
    then show ?thesis unfolding all by auto
  next
    case False
    with Cons.prems(1) have "x \<in> set ms" by simp
    moreover have "x = Notification m p \<and> notification_handlers (dispatch y s) m = Some h \<or>
         x = Request m p \<and> request_handlers (dispatch y s) m = Some h"
      using Cons.prems(2) by simp
    ultimately have "set (Called m h p # run_handler h p) \<subseteq>
        set (drop (length (trace (dispatch y s))) (trace (deliver ms (dispatch y s))))"
      by (rule Cons.IH)
    also have "\<dots> = set e2" using e2 by simp
    finally show ?thesis unfolding all by auto
  qed
qed

text \<open>
  \<open>start_server\<close> by the outcome of each step, in terms of the states the handle goes
  through.
\<close>

lemma start_server_unfold:
  "start_server env root srv =
     (case spawn env of
        Some k \<Rightarrow> (Some (CoreError k), started srv)
      | None \<Rightarrow>
          (case get_initialize_params (getpid env) root of
             Inl e \<Rightarrow> (Some e, started srv)
           | Inr params \<Rightarrow>
               (case initialize_result env of
                  Inl k \<Rightarrow> (Some (CoreError k), sent env params srv)
                | Inr resp \<Rightarrow>
                    (case text_document_sync_present resp of
                       Inl e \<Rightarrow> (Some e, sent env params srv)
                     | Inr present \<Rightarrow>
                         if \<not> present then (Some AssertionError, sent env params srv)
                         else (case initialized_write env of
                                 Some k \<Rightarrow> (Some (CoreError k), sent env params srv)
                               | None \<Rightarrow>
                                   (None, record_event (NotifyInitialized (PDict []))
                                            (sent env params srv)))))))"
  by (simp add: start_server_def server_start_def send_initialize_def notify_initialized_def
        registered_def started_def sent_def text_document_sync_present_def Let_def
      split: option.splits sum.splits)

lemma trace_registered: "trace (registered srv) = trace srv @ default_registrations"
  by (simp add: registered_def on_notification_def on_request_def default_registrations_def)

lemma tables_registered:
  "request_handlers (registered srv) ''client/registerCapability'' = Some register_capability_handler"
  "notification_handlers (registered srv) ''window/logMessage'' = Some window_log_message"
  "notification_handlers (registered srv) ''$/progress'' = Some do_nothing"
  "notification_handlers (registered srv) ''textDocument/publishDiagnostics'' = Some do_nothing"
  by (simp_all add: registered_def on_notification_def on_request_def)

lemma trace_started:
  "trace (started srv) =
     trace srv @ default_registrations @ [LogInfo ''Starting qmlls server process'', Start]"
  by (simp add: started_def log_info_def trace_registered)

lemma tables_started [simp]:
  "request_handlers (started srv) = request_handlers (registered srv)"
  "notification_handlers (started srv) = notification_handlers (registered srv)"
  by (simp_all add: started_def log_info_def)

lemma tables_sent [simp]:
  "request_handlers (sent env params srv) = request_handlers (registered srv)"
  "notification_handlers (sent env params srv) = notification_handlers (registered srv)"
  by (simp_all add: sent_def log_info_def)

lemma trace_sent:
  "\<exists>evs. trace (sent env params srv) =
           trace (started srv) @
           [LogInfo ''Sending initialize request from LSP client to LSP server and awaiting response'',
            SendInitialize params] @ evs \<and>
         list_all is_dispatch_event evs"
proof -
  let ?s0 = "record_event (SendInitialize params)
          (log_info ''Sending initialize request from LSP client to LSP server and awaiting response''
             (started srv))"
  obtain evs where "trace (deliver (pushed env) ?s0) = trace ?s0 @ evs"
      "list_all is_dispatch_event evs"
    using deliver_trace by blast
  then show ?thesis
    by (intro exI [of _ evs]) (simp add: sent_def log_info_def)
qed

lemma sent_called_new:
  assumes "x \<in> set (pushed env)"
    and "x = Notification m p \<and> notification_handlers (registered srv) m = Some h \<or>
         x = Request m p \<and> request_handlers (registered srv) m = Some h"
  shows "set (Called m h p # run_handler h p) \<subseteq> set (new_events srv (sent env params srv))"
proof -
  let ?s0 = "record_event (SendInitialize params)
          (log_info ''Sending initialize request from LSP client to LSP server and awaiting response''
             (started srv))"
  have t0: "trace ?s0 = trace srv @ default_registrations @
      [LogInfo ''Starting qmlls server process'', Start,
       LogInfo ''Sending initialize request from LSP client to LSP server and awaiting response'',
       SendInitialize params]"
    by (simp add: log_info_def trace_started)
  have "x = Notification m p \<and> notification_handlers ?s0 m = Some h \<or>
         x = Request m p \<and> request_handlers ?s0 m = Some h"
    using assms(2) by (simp add: log_info_def)
  with assms(1) have "set (Called m h p # run_handler h p) \<subseteq>
      set (drop (length (trace ?s0)) (trace (deliver (pushed env) ?s0)))"
    by (rule deliver_called_new)
  moreover obtain evs where "trace (deliver (pushed env) ?s0) = trace ?s0 @ evs"
    using deliver_trace by blast
  ultimately show ?thesis
    unfolding new_events_def sent_def t0 by auto
qed

lemma start_server_state:
  assumes "start_server env root srv = (r, s)"
  shows "s = started srv \<or>
         (\<exists>params. get_initialize_params (getpid env) root = Inr params \<and> spawn env = None \<and>
            (s = sent env params srv \<and> r \<noteq> None \<or>
             s = record_event (NotifyInitialized (PDict [])) (sent env params srv) \<and> r = None))"
  using assms unfolding start_server_unfold
  by (auto split: option.splits sum.splits if_splits)


lemma dispatch_events_no_handshake:
  "list_all is_dispatch_event evs \<Longrightarrow>
   filter is_initialize_request evs = [] \<and> filter is_initialized_notification evs = []"
proof (induction evs)
  case Nil
  then show ?case by simp
next
  case (Cons ev evs)
  then show ?case by (cases ev) simp_all
qed

lemma new_events_started:
  "new_events srv (started srv) =
     default_registrations @ [LogInfo ''Starting qmlls server process'', Start]"
  by (simp add: new_events_def trace_started)

lemma new_events_sent:
  "\<exists>evs. new_events srv (sent env params srv) =
           default_registrations @
           [LogInfo ''Starting qmlls server process'', Start,
            LogInfo ''Sending initialize request from LSP client to LSP server and awaiting response'',
            SendInitialize params] @ evs \<and>
         list_all is_dispatch_event evs"
proof -
  obtain evs where "trace (sent env params srv) =
           trace (started srv) @
           [LogInfo ''Sending initialize request from LSP client to LSP server and awaiting response'',
            SendInitialize params] @ evs" "list_all is_dispatch_event evs"
    using trace_sent by blast
  then show ?thesis
    by (intro exI [of _ evs]) (simp add: new_events_def trace_started)
qed

lemma new_events_initialized:
  "new_events srv (record_event ev (sent env params srv)) =
     new_events srv (sent env params srv) @ [ev]"
proof -
  obtain evs where "trace (sent env params srv) = trace (started srv) @ evs"
    using trace_sent by blast
  then show ?thesis by (simp add: new_events_def trace_started)
qed

lemma rejects_lacking:
  "lacks_text_document_sync resp \<Longrightarrow>
   text_document_sync_present resp = Inl (KeyError ''capabilities'') \<or> text_document_sync_present resp = Inr False"
proof (cases resp)
  case (PDict kvs)
  assume l: "lacks_text_document_sync resp"
  show ?thesis
  proof (cases "map_of kvs ''capabilities''")
    case None
    with PDict show ?thesis by (simp add: text_document_sync_present_def)
  next
    case (Some v)
    with l PDict show ?thesis by (cases v) (simp_all add: text_document_sync_present_def)
  qed
qed simp_all

lemma accepts_having:
  "has_text_document_sync resp \<Longrightarrow> text_document_sync_present resp = Inr True"
proof (cases resp)
  case (PDict kvs)
  assume h: "has_text_document_sync resp"
  show ?thesis
  proof (cases "map_of kvs ''capabilities''")
    case None
    with h PDict show ?thesis by simp
  next
    case (Some v)
    with h PDict show ?thesis by (cases v) (simp_all add: text_document_sync_present_def)
  qed
qed simp_all

lemma start_server_ready:
  assumes "spawn env = None" "isabs root" "initialize_result env = Inr resp"
    "has_text_document_sync resp" "initialized_write env = None"
  shows "fst (start_server env root srv) = None"
proof -
  obtain params where "get_initialize_params (getpid env) root = Inr params"
    using assms(2) get_initialize_params_returns by blast
  then show ?thesis
    using assms by (simp add: start_server_unfold accepts_having)
qed

lemma start_server_rejects:
  assumes "initialize_result env = Inr resp" "lacks_text_document_sync resp"
    "start_server env root srv = (r, s)"
  shows "r \<noteq> None"
    and "spawn env = None \<Longrightarrow> isabs root \<Longrightarrow> r = Some AssertionError \<or> r = Some (KeyError ''capabilities'')"
    and "filter is_initialized_notification (new_events srv s) = []"
proof -
  note v = rejects_lacking [OF assms(2)]
  show "r \<noteq> None"
    using assms(1,3) v unfolding start_server_unfold
    by (auto split: option.splits sum.splits if_splits)
  show "r = Some AssertionError \<or> r = Some (KeyError ''capabilities'')"
    if sp: "spawn env = None" and ab: "isabs root"
  proof -
    obtain params where "get_initialize_params (getpid env) root = Inr params"
      using ab get_initialize_params_returns by blast
    then show ?thesis
      using assms(1,3) v sp unfolding start_server_unfold by (auto split: if_splits)
  qed
  have "s = started srv \<or> (\<exists>params. s = sent env params srv)"
    using assms(1,3) v unfolding start_server_unfold
    by (auto split: option.splits sum.splits if_splits)
  then show "filter is_initialized_notification (new_events srv s) = []"
  proof
    assume "s = started srv"
    then show ?thesis by (simp add: new_events_started default_registrations_def)
  next
    assume "\<exists>params. s = sent env params srv"
    then obtain params where s: "s = sent env params srv" by blast
    obtain evs where "new_events srv s =
           default_registrations @
           [LogInfo ''Starting qmlls server process'', Start,
            LogInfo ''Sending initialize request from LSP client to LSP server and awaiting response'',
            SendInitialize params] @ evs" "list_all is_dispatch_event evs"
      using new_events_sent s by blast
    then show ?thesis
      by (simp add: default_registrations_def dispatch_events_no_handshake)
  qed
qed

lemma start_server_prefix:
  assumes "start_server env root srv = (r, s)"
  shows "\<exists>rest. new_events srv s = default_registrations @ rest"
proof -
  from start_server_state [OF assms] consider
      "s = started srv"
    | params where "s = sent env params srv"
    | params where "s = record_event (NotifyInitialized (PDict [])) (sent env params srv)"
    by blast
  then show ?thesis
  proof cases
    case 1
    then show ?thesis by (simp add: new_events_started)
  next
    case 2
    then show ?thesis using new_events_sent [of srv env params] by auto
  next
    case 3
    then show ?thesis
      using new_events_sent [of srv env params] by (auto simp: new_events_initialized)
  qed
qed

lemma trace_sent_prefix: "\<exists>evs. trace (sent env params srv) = trace srv @ evs"
  using trace_sent [of env params srv] by (auto simp: trace_started)

lemma set_new_events:
  assumes "start_server env root srv = (r, s)"
  shows "trace s = trace srv @ new_events srv s"
proof -
  from start_server_state [OF assms] consider
      "s = started srv"
    | params where "s = sent env params srv"
    | params where "s = record_event (NotifyInitialized (PDict [])) (sent env params srv)"
    by blast
  then have "\<exists>evs. trace s = trace srv @ evs"
  proof cases
    case 1
    then show ?thesis by (simp add: trace_started)
  next
    case 2
    then show ?thesis by (simp add: trace_sent_prefix)
  next
    case 3
    obtain evs where "trace (sent env params srv) = trace srv @ evs"
      using trace_sent_prefix by blast
    with 3 show ?thesis by simp
  qed
  then show ?thesis by (auto simp: new_events_def)
qed

lemma start_server_handles:
  assumes "start_server env root srv = (r, s)" "spawn env = None" "isabs root"
    and "x \<in> set (pushed env)"
    and "x = Notification m p \<and> notification_handlers (registered srv) m = Some h \<or>
         x = Request m p \<and> request_handlers (registered srv) m = Some h"
  shows "set (Called m h p # run_handler h p) \<subseteq> set (new_events srv s)"
proof -
  obtain params where p: "get_initialize_params (getpid env) root = Inr params"
    using assms(3) get_initialize_params_returns by blast
  have s: "s = sent env params srv \<or>
        s = record_event (NotifyInitialized (PDict [])) (sent env params srv)"
    using assms(1,2) p unfolding start_server_unfold
    by (auto split: option.splits sum.splits if_splits)
  have "set (Called m h p # run_handler h p) \<subseteq> set (new_events srv (sent env params srv))"
    using assms(4,5) by (rule sent_called_new)
  then show ?thesis
    using s by (auto simp: new_events_initialized)
qed

lemma start_server_success_events:
  assumes "start_server env root srv = (None, s)"
  shows "\<exists>params evs. get_initialize_params (getpid env) root = Inr params \<and>
     new_events srv s =
       default_registrations @
       [LogInfo ''Starting qmlls server process'', Start,
        LogInfo ''Sending initialize request from LSP client to LSP server and awaiting response'',
        SendInitialize params] @ evs @ [NotifyInitialized (PDict [])] \<and>
     list_all is_dispatch_event evs"
proof -
  obtain params where p: "get_initialize_params (getpid env) root = Inr params"
    and s: "s = record_event (NotifyInitialized (PDict [])) (sent env params srv)"
    using assms unfolding start_server_unfold
    by (auto split: option.splits sum.splits if_splits)
  obtain evs where "new_events srv (sent env params srv) =
           default_registrations @
           [LogInfo ''Starting qmlls server process'', Start,
            LogInfo ''Sending initialize request from LSP client to LSP server and awaiting response'',
            SendInitialize params] @ evs" "list_all is_dispatch_event evs"
    using new_events_sent by blast
  then show ?thesis
    using p s by (simp add: new_events_initialized)
qed

text \<open>
  Claim C1. In every run of \<open>start_server\<close> the first four events are the registrations
  of the default handlers (the \<^verbatim>\<open>client/registerCapability\<close> request handler and the
  \<^verbatim>\<open>window/logMessage\<close>, \<^verbatim>\<open>$/progress\<close> and \<^verbatim>\<open>textDocument/publishDiagnostics\<close>
  notification handlers), so an initialize request is sent only after all four. When the
  process can be spawned and the repository root is absolute, so that the initialize
  request is sent, every such message that the server sends before it answers the request
  is delivered to its handler (a log message is logged); and when the answer has the
  capability and the initialized notification can be written, the connection is Ready,
  whatever the server has sent before its answer.
\<close>

theorem default_handlers_before_initialize:
  assumes "start_server env root srv = (r, s)"
  shows "(\<exists>rest. new_events srv s = default_registrations @ rest) \<and>
    (\<forall>i. i < length (new_events srv s) \<and> is_initialize_request (new_events srv s ! i) \<longrightarrow>
          length default_registrations \<le> i) \<and>
    (spawn env = None \<and> isabs root \<longrightarrow>
       (\<forall>p. Notification ''window/logMessage'' p \<in> set (pushed env) \<longrightarrow>
          Called ''window/logMessage'' window_log_message p \<in> set (new_events srv s) \<and>
          LogWindowMessage p \<in> set (new_events srv s)) \<and>
       (\<forall>p. Notification ''$/progress'' p \<in> set (pushed env) \<longrightarrow>
          Called ''$/progress'' do_nothing p \<in> set (new_events srv s)) \<and>
       (\<forall>p. Notification ''textDocument/publishDiagnostics'' p \<in> set (pushed env) \<longrightarrow>
          Called ''textDocument/publishDiagnostics'' do_nothing p \<in> set (new_events srv s)) \<and>
       (\<forall>p. Request ''client/registerCapability'' p \<in> set (pushed env) \<longrightarrow>
          Called ''client/registerCapability'' register_capability_handler p
            \<in> set (new_events srv s))) \<and>
    (spawn env = None \<and> isabs root \<and> initialized_write env = None \<and>
     (\<exists>resp. initialize_result env = Inr resp \<and> has_text_document_sync resp) \<longrightarrow>
       connection_after (r, s) = Ready)"
proof (intro conjI)
  show pre: "\<exists>rest. new_events srv s = default_registrations @ rest"
    using assms by (rule start_server_prefix)
  show "\<forall>i. i < length (new_events srv s) \<and> is_initialize_request (new_events srv s ! i) \<longrightarrow>
          length default_registrations \<le> i"
  proof (intro allI impI)
    fix i
    assume i: "i < length (new_events srv s) \<and> is_initialize_request (new_events srv s ! i)"
    obtain rest where rest: "new_events srv s = default_registrations @ rest"
      using pre by blast
    show "length default_registrations \<le> i"
    proof (rule ccontr)
      assume "\<not> length default_registrations \<le> i"
      then have lt: "i < length default_registrations" by simp
      then have "new_events srv s ! i = default_registrations ! i"
        by (simp add: rest nth_append)
      moreover have "\<not> is_initialize_request (default_registrations ! i)"
        using lt by (auto simp: default_registrations_def less_Suc_eq numeral_eq_Suc)
      ultimately show False using i by simp
    qed
  qed
  show "spawn env = None \<and> isabs root \<longrightarrow>
       (\<forall>p. Notification ''window/logMessage'' p \<in> set (pushed env) \<longrightarrow>
          Called ''window/logMessage'' window_log_message p \<in> set (new_events srv s) \<and>
          LogWindowMessage p \<in> set (new_events srv s)) \<and>
       (\<forall>p. Notification ''$/progress'' p \<in> set (pushed env) \<longrightarrow>
          Called ''$/progress'' do_nothing p \<in> set (new_events srv s)) \<and>
       (\<forall>p. Notification ''textDocument/publishDiagnostics'' p \<in> set (pushed env) \<longrightarrow>
          Called ''textDocument/publishDiagnostics'' do_nothing p \<in> set (new_events srv s)) \<and>
       (\<forall>p. Request ''client/registerCapability'' p \<in> set (pushed env) \<longrightarrow>
          Called ''client/registerCapability'' register_capability_handler p
            \<in> set (new_events srv s))"
  proof (intro impI conjI allI; elim conjE)
    fix p
    assume e: "spawn env = None" "isabs root"
    {
      assume "Notification ''window/logMessage'' p \<in> set (pushed env)"
      from start_server_handles [OF assms e this, of "''window/logMessage''" p window_log_message]
      show "Called ''window/logMessage'' window_log_message p \<in> set (new_events srv s)"
        and "LogWindowMessage p \<in> set (new_events srv s)"
        by (simp_all add: tables_registered)
    }
    {
      assume "Notification ''$/progress'' p \<in> set (pushed env)"
      from start_server_handles [OF assms e this, of "''$/progress''" p do_nothing]
      show "Called ''$/progress'' do_nothing p \<in> set (new_events srv s)"
        by (simp add: tables_registered)
    }
    {
      assume "Notification ''textDocument/publishDiagnostics'' p \<in> set (pushed env)"
      from start_server_handles [OF assms e this, of "''textDocument/publishDiagnostics''" p do_nothing]
      show "Called ''textDocument/publishDiagnostics'' do_nothing p \<in> set (new_events srv s)"
        by (simp add: tables_registered)
    }
    {
      assume "Request ''client/registerCapability'' p \<in> set (pushed env)"
      from start_server_handles [OF assms e this, of "''client/registerCapability''" p
          register_capability_handler]
      show "Called ''client/registerCapability'' register_capability_handler p
            \<in> set (new_events srv s)"
        by (simp add: tables_registered)
    }
  qed
  show "spawn env = None \<and> isabs root \<and> initialized_write env = None \<and>
     (\<exists>resp. initialize_result env = Inr resp \<and> has_text_document_sync resp) \<longrightarrow>
       connection_after (r, s) = Ready"
  proof (intro impI; elim conjE exE)
    fix resp
    assume "spawn env = None" "isabs root" "initialized_write env = None"
      "initialize_result env = Inr resp" "has_text_document_sync resp"
    then have "fst (start_server env root srv) = None"
      by (intro start_server_ready)
    with assms show "connection_after (r, s) = Ready" by simp
  qed
qed

theorem default_handlers_before_initialize_witness:
  "spawn chatty_env = None \<and> isabs ''/home/u/proj'' \<and> initialized_write chatty_env = None \<and>
   initialize_result chatty_env =
     Inr (PDict [(''capabilities'', PDict [(''textDocumentSync'', PInt 1)])]) \<and>
   has_text_document_sync (PDict [(''capabilities'', PDict [(''textDocumentSync'', PInt 1)])]) \<and>
   Notification ''window/logMessage''
     (PDict [(''type'', PInt 3), (''message'', PStr ''indexing'')]) \<in> set (pushed chatty_env) \<and>
   Called ''window/logMessage'' window_log_message
     (PDict [(''type'', PInt 3), (''message'', PStr ''indexing'')])
     \<in> set (new_events fresh_server (snd (start_server chatty_env ''/home/u/proj'' fresh_server))) \<and>
   LogWindowMessage (PDict [(''type'', PInt 3), (''message'', PStr ''indexing'')])
     \<in> set (new_events fresh_server (snd (start_server chatty_env ''/home/u/proj'' fresh_server))) \<and>
   connection_after (start_server chatty_env ''/home/u/proj'' fresh_server) = Ready"
proof -
  have e: "spawn chatty_env = None" "initialized_write chatty_env = None"
    "initialize_result chatty_env =
       Inr (PDict [(''capabilities'', PDict [(''textDocumentSync'', PInt 1)])])"
    "Notification ''window/logMessage''
       (PDict [(''type'', PInt 3), (''message'', PStr ''indexing'')]) \<in> set (pushed chatty_env)"
    by (simp_all add: chatty_env_def)
  have a: "isabs ''/home/u/proj''" by (simp add: isabs_def)
  have h: "has_text_document_sync (PDict [(''capabilities'', PDict [(''textDocumentSync'', PInt 1)])])"
    by simp
  have r: "start_server chatty_env ''/home/u/proj'' fresh_server =
      (fst (start_server chatty_env ''/home/u/proj'' fresh_server),
       snd (start_server chatty_env ''/home/u/proj'' fresh_server))"
    by simp
  show ?thesis
    using e a h default_handlers_before_initialize [OF r] by auto
qed

text \<open>
  Claim C2. Every run of \<open>start_server\<close> that leaves the connection Ready has sent
  exactly one initialize request and exactly one initialized notification, the request
  first: its events are the four registrations, the start of the process, the initialize
  request with the parameters of \<open>get_initialize_params\<close>, the dispatch of what the server
  sent before its answer, and last the initialized notification. The call returns, and
  queries are let through, only after both.
\<close>

theorem ready_after_initialize_then_initialized:
  assumes "connection_after (start_server env root srv) = Ready"
  shows "\<exists>params dispatched.
      get_initialize_params (getpid env) root = Inr params \<and>
      list_all is_dispatch_event dispatched \<and>
      new_events srv (snd (start_server env root srv)) =
        default_registrations @
        [LogInfo ''Starting qmlls server process'', Start,
         LogInfo ''Sending initialize request from LSP client to LSP server and awaiting response'',
         SendInitialize params] @ dispatched @ [NotifyInitialized (PDict [])] \<and>
      filter is_initialize_request (new_events srv (snd (start_server env root srv))) =
        [SendInitialize params] \<and>
      filter is_initialized_notification (new_events srv (snd (start_server env root srv))) =
        [NotifyInitialized (PDict [])]"
proof -
  obtain r s where rs: "start_server env root srv = (r, s)" by (cases "start_server env root srv")
  with assms have "r = None" by (cases r) simp_all
  with rs have ok: "start_server env root srv = (None, s)" by simp
  obtain params evs where p: "get_initialize_params (getpid env) root = Inr params"
    and ev: "new_events srv s =
       default_registrations @
       [LogInfo ''Starting qmlls server process'', Start,
        LogInfo ''Sending initialize request from LSP client to LSP server and awaiting response'',
        SendInitialize params] @ evs @ [NotifyInitialized (PDict [])]"
    and d: "list_all is_dispatch_event evs"
    using start_server_success_events [OF ok] by blast
  have "filter is_initialize_request (new_events srv s) = [SendInitialize params]"
    "filter is_initialized_notification (new_events srv s) = [NotifyInitialized (PDict [])]"
    using dispatch_events_no_handshake [OF d]
    by (simp_all add: ev default_registrations_def)
  with p ev d ok show ?thesis by auto
qed

theorem ready_after_initialize_then_initialized_witness:
  "connection_after (start_server chatty_env ''/home/u/proj'' fresh_server) = Ready \<and>
   length (filter is_initialize_request
     (new_events fresh_server (snd (start_server chatty_env ''/home/u/proj'' fresh_server)))) = 1 \<and>
   filter is_initialized_notification
     (new_events fresh_server (snd (start_server chatty_env ''/home/u/proj'' fresh_server))) =
     [NotifyInitialized (PDict [])] \<and>
   last (new_events fresh_server (snd (start_server chatty_env ''/home/u/proj'' fresh_server))) =
     NotifyInitialized (PDict [])"
proof -
  have "fst (start_server chatty_env ''/home/u/proj'' fresh_server) = None"
    by (rule start_server_ready [where resp = "PDict [(''capabilities'', PDict [(''textDocumentSync'', PInt 1)])]"])
       (simp_all add: chatty_env_def isabs_def)
  then have c: "connection_after (start_server chatty_env ''/home/u/proj'' fresh_server) = Ready"
    by (cases "start_server chatty_env ''/home/u/proj'' fresh_server") simp
  show ?thesis
    using c ready_after_initialize_then_initialized [OF c] by auto
qed

text \<open>
  Claim C3. If the initialize result lacks the capability (it has no \<^verbatim>\<open>capabilities\<close>
  member, or that member is a dictionary with no \<^verbatim>\<open>textDocumentSync\<close> key), then
  \<open>start_server\<close> ends with an exception, the initialized notification is not sent, and the
  connection is Terminated and not Ready. When the initialize request was sent (the
  process was spawned and the repository root is absolute), the exception is the
  \<^verbatim>\<open>AssertionError\<close> of the \<^verbatim>\<open>assert\<close>, or the \<^verbatim>\<open>KeyError\<close> of the subscript, and its class
  is HandshakeError.
\<close>

theorem missing_text_document_sync_fails:
  assumes "initialize_result env = Inr resp"
    and "lacks_text_document_sync resp"
    and "start_server env root srv = (r, s)"
  shows "r \<noteq> None \<and>
    connection_after (r, s) \<noteq> Ready \<and>
    (\<exists>e. connection_after (r, s) = Terminated e) \<and>
    filter is_initialized_notification (new_events srv s) = [] \<and>
    (spawn env = None \<and> isabs root \<longrightarrow>
       (r = Some AssertionError \<or> r = Some (KeyError ''capabilities'')) \<and>
       (\<exists>e. connection_after (r, s) = Terminated e \<and> error_kind_of e = Some HandshakeError))"
proof -
  note rej = start_server_rejects [OF assms]
  from rej(1) obtain e where e: "r = Some e" by (cases r) simp_all
  have "(r = Some AssertionError \<or> r = Some (KeyError ''capabilities'')) \<and>
       (\<exists>e. connection_after (r, s) = Terminated e \<and> error_kind_of e = Some HandshakeError)"
    if "spawn env = None \<and> isabs root"
    using rej(2) that by auto
  then show ?thesis
    using rej(1,3) e by auto
qed

theorem missing_text_document_sync_fails_witness:
  "initialize_result deficient_env =
     Inr (PDict [(''capabilities'', PDict [(''hoverProvider'', PBool True)])]) \<and>
   lacks_text_document_sync (PDict [(''capabilities'', PDict [(''hoverProvider'', PBool True)])]) \<and>
   spawn deficient_env = None \<and> isabs ''/home/u/proj'' \<and>
   fst (start_server deficient_env ''/home/u/proj'' fresh_server) = Some AssertionError \<and>
   connection_after (start_server deficient_env ''/home/u/proj'' fresh_server) =
     Terminated AssertionError \<and>
   error_kind_of AssertionError = Some HandshakeError \<and>
   filter is_initialized_notification
     (new_events fresh_server (snd (start_server deficient_env ''/home/u/proj'' fresh_server))) = []"
proof -
  have i: "initialize_result deficient_env =
     Inr (PDict [(''capabilities'', PDict [(''hoverProvider'', PBool True)])])"
    and sp: "spawn deficient_env = None"
    by (simp_all add: deficient_env_def chatty_env_def)
  have l: "lacks_text_document_sync
      (PDict [(''capabilities'', PDict [(''hoverProvider'', PBool True)])])"
    by simp
  have a: "isabs ''/home/u/proj''" by (simp add: isabs_def)
  have r: "start_server deficient_env ''/home/u/proj'' fresh_server =
      (fst (start_server deficient_env ''/home/u/proj'' fresh_server),
       snd (start_server deficient_env ''/home/u/proj'' fresh_server))"
    by simp
  obtain params where p: "get_initialize_params (getpid deficient_env) ''/home/u/proj'' = Inr params"
    using a get_initialize_params_returns by blast
  have f: "fst (start_server deficient_env ''/home/u/proj'' fresh_server) = Some AssertionError"
    by (simp add: start_server_unfold p i sp text_document_sync_present_def)
  have c: "connection_after (start_server deficient_env ''/home/u/proj'' fresh_server) =
     Terminated AssertionError"
    using f by (cases "start_server deficient_env ''/home/u/proj'' fresh_server") simp
  show ?thesis
    using i l sp a f c missing_text_document_sync_fails [OF i l r]
    by simp
qed

end
